theory Spec2Isabelle
  imports Complex_Main
begin

section \<open>Python values shared by the models\<close>

text \<open>
  The exceptions that the modelled functions let escape. \<open>SystemExit\<close> carries which of the
  repair script's three exits was taken.
\<close>

datatype exit_reason = NoDatetimeColumn | NotIntegerSequence | NotEnoughTimestamps

datatype py_error = RuntimeError | KeyError | IndexError | TypeError | AttributeError
  | SystemExit exit_reason

text \<open>
  \<open>xs[i]\<close> on a Python list or a numpy array: a negative index counts from the end, and an
  index outside \<open>-len .. len - 1\<close> raises IndexError.
\<close>

definition py_index :: "'a list \<Rightarrow> int \<Rightarrow> py_error + 'a" where
  "py_index xs i =
     (if 0 \<le> i \<and> i < int (length xs) then Inr (xs ! nat i)
      else if i < 0 \<and> - int (length xs) \<le> i then Inr (xs ! nat (int (length xs) + i))
      else Inl IndexError)"

text \<open>
  \<open>xs[a:b]\<close>: negative bounds count from the end, and both bounds are clamped to
  \<open>0 .. len\<close>; a slice never raises.
\<close>

definition slice_bound :: "nat \<Rightarrow> int \<Rightarrow> nat" where
  "slice_bound n i = (if i < 0 then nat (int n + i) else min (nat i) n)"

definition py_slice :: "'a list \<Rightarrow> int \<Rightarrow> int \<Rightarrow> 'a list" where
  "py_slice xs a b =
     take (slice_bound (length xs) b - slice_bound (length xs) a)
          (drop (slice_bound (length xs) a) xs)"

section \<open>The market simulator (src/market\_env.py)\<close>

text \<open>
  \<open>MarketEnv\<close> keeps the constructor's arguments (\<open>features\<close>, \<open>prices\<close>, \<open>window\<close>,
  \<open>transaction_cost\<close>) and the running state (\<open>t\<close>, \<open>position\<close>, \<open>last_price\<close>, \<open>done\<close>).
  The arguments never change after construction, so they form one record and the running
  state another. The constructor builds \<open>Box(shape=(window, ...))\<close>, which refuses a negative
  dimension, so \<open>window\<close> and the index \<open>t\<close> are natural numbers. float64 prices and rewards
  are idealised as real numbers (no rounding, finite inputs); the float32 cast of the
  observation is left out, an observation being the rows of the window.

  numpy does not raise on a float64 division by zero: the quotient is \<open>inf\<close> or \<open>nan\<close>, and so
  is everything computed from it. \<open>None\<close> stands for such a float that is not finite.
\<close>

definition np_divide :: "real \<Rightarrow> real \<Rightarrow> real option" where
  "np_divide x y = (if y = 0 then None else Some (x / y))"

record market_env =
  features :: "real list list"
  prices :: "real list"
  window :: nat
  transaction_cost :: real

record sim_state =
  t :: nat
  position :: int
  last_price :: real
  is_done :: bool

record step_outcome =
  obs :: "real list list"
  reward :: "real option"
  done_out :: bool
  info_pnl :: "real option"
  info_tc :: real

definition T :: "market_env \<Rightarrow> nat" where
  "T e = length (prices e)"

definition get_obs :: "market_env \<Rightarrow> sim_state \<Rightarrow> real list list" where
  "get_obs e s = py_slice (features e) (int (t s) - int (window e)) (int (t s))"

definition zeros_like :: "real list list \<Rightarrow> real list list" where
  "zeros_like rows = map (map (\<lambda>_. 0)) rows"

text \<open>
  \<open>reset\<close> assigns \<open>t\<close> and \<open>position\<close> before it reads \<open>prices[t - 1]\<close>, so a failing read
  leaves those two assignments behind. The result pairs the state after the call with what
  the call returned or raised.
\<close>

definition reset :: "market_env \<Rightarrow> sim_state \<Rightarrow> sim_state \<times> (py_error + real list list)" where
  "reset e s =
     (let s1 = s\<lparr>t := window e, position := 0\<rparr> in
      case py_index (prices e) (int (t s1) - 1) of
        Inl err \<Rightarrow> (s1, Inl err)
      | Inr p \<Rightarrow>
          (let s2 = s1\<lparr>last_price := p, is_done := False\<rparr>
           in (s2, Inr (get_obs e s2))))"

text \<open>The dictionary \<open>{0: 0, 1: 1, 2: -1}\<close>; \<open>None\<close> is the missing key.\<close>

definition pos_map :: "int \<Rightarrow> int option" where
  "pos_map a = (if a = 0 then Some 0 else if a = 1 then Some 1
                else if a = 2 then Some (- 1) else None)"

text \<open>
  \<open>step\<close>, with \<open>action\<close> already converted by \<open>int(action)\<close>. Each raise returns the state as
  it is at that line.
\<close>

definition step :: "market_env \<Rightarrow> sim_state \<Rightarrow> int \<Rightarrow> sim_state \<times> (py_error + step_outcome)" where
  "step e s action =
     (if is_done s then (s, Inl RuntimeError)
      else case pos_map action of
        None \<Rightarrow> (s, Inl KeyError)
      | Some new_pos \<Rightarrow>
          (case py_index (prices e) (int (t s)) of
             Inl err \<Rightarrow> (s, Inl err)
           | Inr price \<Rightarrow>
               (let ret = np_divide (price - last_price s) (last_price s);
                    pnl = map_option (\<lambda>r. of_int (position s) * r) ret;
                    tc = (if new_pos \<noteq> position s
                          then of_int \<bar>new_pos - position s\<bar> * transaction_cost e
                          else 0);
                    s1 = s\<lparr>position := new_pos, last_price := price, t := t s + 1\<rparr>;
                    s2 = (if T e \<le> t s1 then s1\<lparr>is_done := True\<rparr> else s1);
                    ob = (if \<not> is_done s2 then get_obs e s2 else zeros_like (get_obs e s2))
                in (s2, Inr \<lparr>obs = ob, reward = map_option (\<lambda>p. p - tc) pnl,
                             done_out = is_done s2,
                             info_pnl = pnl, info_tc = tc\<rparr>))))"

text \<open>
  The states a simulator can be in: the one a successful \<open>reset\<close> leaves, and the one a
  successful \<open>step\<close> leaves.
\<close>

inductive reachable :: "market_env \<Rightarrow> sim_state \<Rightarrow> bool" for e :: market_env where
  after_reset: "reset e s0 = (s, Inr ob) \<Longrightarrow> reachable e s"
| after_step: "reachable e s \<Longrightarrow> step e s a = (s', Inr out) \<Longrightarrow> reachable e s'"

section \<open>The trading-minute calendar (scripts/fix\_integer\_datetime\_to\_ts.py)\<close>

text \<open>
  A calendar day is its number of days since 1970-01-01, and a minute timestamp the number
  of minutes since 1970-01-01 00:00, both unbounded (pandas stops at the year 2262). The
  script passes days around as \<open>YYYY-MM-DD\<close> strings; formatting a day and parsing it back
  gives the same day, so the model passes the day itself. \<open>weekday\<close> is pandas' numbering,
  Monday = 0; 1970-01-01 was a Thursday.
\<close>

type_synonym day = int
type_synonym minute_ts = int

definition weekday :: "day \<Rightarrow> int" where
  "weekday d = (d + 3) mod 7"

definition at_time :: "day \<Rightarrow> int \<Rightarrow> int \<Rightarrow> minute_ts" where
  "at_time d h m = d * 1440 + h * 60 + m"

text \<open>\<open>pd.date_range(a, b, freq="1min")\<close>: every minute from \<open>a\<close> to \<open>b\<close>, both included.\<close>

definition date_range_1min :: "minute_ts \<Rightarrow> minute_ts \<Rightarrow> minute_ts list" where
  "date_range_1min a b = [a..b]"

text \<open>The body of the loop of \<open>trading_minutes_for_days\<close>: what one day appends to \<open>parts\<close>.\<close>

definition session_minutes :: "day \<Rightarrow> minute_ts list" where
  "session_minutes d =
     (let morning = date_range_1min (at_time d 9 30) (at_time d 11 30);
          afternoon = date_range_1min (at_time d 13 0) (at_time d 15 0)
      in morning @ afternoon)"

definition trading_minutes_for_days :: "day list \<Rightarrow> minute_ts list" where
  "trading_minutes_for_days days =
     (let parts = map session_minutes days
      in if parts \<noteq> [] then concat parts else [])"

text \<open>The inner loop of \<open>extend_days_until_length\<close>: \<open>while nxt.weekday() >= 5: nxt += 1 day\<close>.\<close>

function skip_weekend :: "day \<Rightarrow> day" where
  "skip_weekend nxt = (if 5 \<le> weekday nxt then skip_weekend (nxt + 1) else nxt)"
  by pat_completeness auto
termination
proof (relation "measure (\<lambda>d. nat ((7 - weekday d) mod 7))")
  show "wf (measure (\<lambda>d. nat ((7 - weekday d) mod 7)))" by simp
next
  fix nxt :: day
  assume "5 \<le> weekday nxt"
  then have "(7 - (nxt + 1 + 3) mod 7) mod 7 < (7 - (nxt + 3) mod 7) mod 7"
    unfolding weekday_def by presburger
  then show "(nxt + 1, nxt) \<in> measure (\<lambda>d. nat ((7 - weekday d) mod 7))"
    by (simp add: weekday_def)
qed

declare skip_weekend.simps [simp del]

text \<open>
  The outer loop, \<open>while True\<close>. \<open>cur_days[-1]\<close> raises IndexError on an empty list. Every day
  contributes 242 minutes, which is what bounds the number of rounds.
\<close>

function extend_days_until_length :: "day list \<Rightarrow> int \<Rightarrow> py_error + minute_ts list" where
  "extend_days_until_length cur_days required_len =
     (let ts = trading_minutes_for_days cur_days in
      if required_len \<le> int (length ts) then Inr ts
      else case py_index cur_days (- 1) of
             Inl err \<Rightarrow> Inl err
           | Inr last_day \<Rightarrow>
               extend_days_until_length (cur_days @ [skip_weekend (last_day + 1)]) required_len)"
  by pat_completeness auto
termination
proof (relation "measure (\<lambda>(days, n). nat (n - 242 * int (length days)))")
  show "wf (measure (\<lambda>(days, n). nat (n - 242 * int (length days))))" by simp
next
  fix cur_days :: "day list" and required_len :: int and ts last_day
  assume ts: "ts = trading_minutes_for_days cur_days"
    and short: "\<not> required_len \<le> int (length ts)"
  have one: "length (session_minutes d) = 242" for d
    by (simp add: session_minutes_def date_range_1min_def at_time_def)
  have "length (concat (map session_minutes ds)) = 242 * length ds" for ds
    by (induction ds) (simp_all add: one)
  then have "length ts = 242 * length cur_days"
    by (simp add: ts trading_minutes_for_days_def)
  with short show "((cur_days @ [skip_weekend (last_day + 1)], required_len), cur_days, required_len)
      \<in> measure (\<lambda>(days, n). nat (n - 242 * int (length days)))"
    by simp
qed

declare extend_days_until_length.simps [simp del]

text \<open>
  \<open>pd.bdate_range(start, end, freq='C')\<close> with the default week mask: the days from \<open>start\<close> to
  \<open>end\<close>, both included, that fall on Monday to Friday, in ascending order.
\<close>

definition bdate_range :: "day \<Rightarrow> day \<Rightarrow> day list" where
  "bdate_range start_date end_date = filter (\<lambda>d. weekday d < 5) [start_date..end_date]"

definition build_minutes_sequence :: "day \<Rightarrow> day \<Rightarrow> int \<Rightarrow> py_error + minute_ts list" where
  "build_minutes_sequence start_date end_date required_len =
     (let days = bdate_range start_date end_date;
          ts = trading_minutes_for_days days
      in if required_len \<le> int (length ts) then Inr (py_slice ts 0 required_len)
         else case extend_days_until_length days required_len of
                Inl err \<Rightarrow> Inl err
              | Inr ts_ext \<Rightarrow> Inr (py_slice ts_ext 0 required_len))"

section \<open>The timestamp repair (\<open>main\<close> of scripts/fix\_integer\_datetime\_to\_ts.py)\<close>

text \<open>
  The model starts at the table that \<open>pd.read_csv\<close> returned. A cell of the \<open>datetime\<close> column
  is described by what \<open>dropna().astype(int)\<close> does with it: it is missing and dropped, it
  converts to an integer (an integer, a finite float, which is truncated, a boolean), or it
  makes the conversion of the whole column raise (a date string, any other text, an infinite
  float). The other columns of a row are one value of an arbitrary type.
\<close>

datatype time_cell = Missing | Converts int | Unconvertible

datatype 'v csv_table = NoTimeColumn "'v list" | WithTimeColumn "(time_cell \<times> 'v) list"

definition dropna :: "time_cell list \<Rightarrow> time_cell list" where
  "dropna cells = filter (\<lambda>c. c \<noteq> Missing) cells"

fun astype_int :: "time_cell list \<Rightarrow> int list option" where
  "astype_int [] = Some []"
| "astype_int (Converts k # cells) = map_option ((#) k) (astype_int cells)"
| "astype_int (c # cells) = None"

text \<open>
  The \<open>try\<close> block of the check. After \<open>astype(int)\<close> every sampled value is an integer, so
  the \<open>isinstance\<close> test holds of each of them; the flag is false only through the
  \<open>except\<close> branch.
\<close>

definition is_int_seq :: "time_cell list \<Rightarrow> bool" where
  "is_int_seq cells =
     (case astype_int (dropna cells) of
        None \<Rightarrow> False
      | Some vals \<Rightarrow> list_all (\<lambda>x. True) (take 10 vals))"

text \<open>
  \<open>main\<close>, from the column check on. Its result is the re-indexed table that it writes out:
  the rows as pairs of the new timestamp and the row's other values. \<open>sort_index\<close> is a
  stable sort on the timestamp.
\<close>

definition main :: "'v csv_table \<Rightarrow> day \<Rightarrow> day \<Rightarrow> py_error + (minute_ts \<times> 'v) list" where
  "main df start_date end_date =
     (case df of
        NoTimeColumn _ \<Rightarrow> Inl (SystemExit NoDatetimeColumn)
      | WithTimeColumn rows \<Rightarrow>
          if \<not> is_int_seq (map fst rows) then Inl (SystemExit NotIntegerSequence)
          else
            (let n = int (length rows) in
             case build_minutes_sequence start_date end_date n of
               Inl err \<Rightarrow> Inl err
             | Inr ts \<Rightarrow>
                 if int (length ts) < n then Inl (SystemExit NotEnoughTimestamps)
                 else Inr (sort_key fst (zip (py_slice ts 0 n) (map snd rows)))))"

subsection \<open>Concrete simulators\<close>

text \<open>
  Four prices and a window of one row; a state of an environment that has not been reset
  yet; the state after \<open>reset\<close> and one \<open>long\<close>; a finished state. \<open>env_full\<close> has a window as
  long as its price series.
\<close>

definition env0 :: market_env where
  "env0 = \<lparr>features = [[1], [2], [3], [4]], prices = [100, 101, 99, 99], window = 1,
           transaction_cost = 1 / 100\<rparr>"

definition state0 :: sim_state where
  "state0 = \<lparr>t = 0, position = 0, last_price = 0, is_done = False\<rparr>"

definition state_ready :: sim_state where
  "state_ready = \<lparr>t = 1, position = 0, last_price = 100, is_done = False\<rparr>"

definition state_long :: sim_state where
  "state_long = \<lparr>t = 2, position = 1, last_price = 101, is_done = False\<rparr>"

definition state_done :: sim_state where
  "state_done = \<lparr>t = 4, position = 1, last_price = 99, is_done = True\<rparr>"

definition env_full :: market_env where
  "env_full = \<lparr>features = [[1], [2]], prices = [100, 101], window = 2,
               transaction_cost = 1 / 100\<rparr>"

definition state_full :: sim_state where
  "state_full = \<lparr>t = 2, position = 0, last_price = 101, is_done = False\<rparr>"

subsection \<open>Session times\<close>

text \<open>
  The minutes of the day that belong to the two sessions: 09:30 to 11:30 is minute 570 to
  690, and 13:00 to 15:00 is minute 780 to 900, both ends included.
\<close>

definition in_session :: "int \<Rightarrow> bool" where
  "in_session m \<longleftrightarrow> (570 \<le> m \<and> m \<le> 690) \<or> (780 \<le> m \<and> m \<le> 900)"

subsection \<open>Concrete tables\<close>


definition table_unordered :: "(time_cell \<times> string) list" where
  "table_unordered = [(Converts 3, ''a''), (Converts 1, ''b''), (Converts 2, ''c'')]"

definition table_dates :: "(time_cell \<times> string) list" where
  "table_dates = [(Unconvertible, ''a''), (Unconvertible, ''b'')]"

section \<open>The feed normalizer (\<open>parse_and_normalize_minute_df\<close> of scripts/download\_akshare\_minute.py)\<close>

text \<open>
  A pandas table is its index name, its column labels in order, and its rows; a row is the
  index value and one cell for each column. A cell is a text, a float, a timestamp
  (nanoseconds since 1970) or a missing value (\<open>NaN\<close>, \<open>NaT\<close>, \<open>None\<close>). Labels and texts are
  byte strings, the Chinese labels in UTF-8. The model follows pandas for tables whose raw
  column labels are distinct and whose rows have one cell for each column.
\<close>

datatype cell = Str string | Num real | Stamp int | NaN

record frame =
  index_name :: "string option"
  columns :: "string list"
  row_list :: "(cell \<times> cell list) list"

text \<open>
  What the function asks of pandas, taken as parameters: \<open>str\<close> of a float and of a
  timestamp; \<open>pd.to_datetime(column, errors='coerce')\<close> at one element of the column (the
  whole column is the first argument, pandas infers one format for it), \<open>None\<close> for \<open>NaT\<close>;
  \<open>pd.to_numeric(column, errors='coerce')\<close> at one cell, \<open>None\<close> for \<open>NaN\<close>;
  \<open>pd.to_datetime(day_str) + pd.to_timedelta(x, unit='s')\<close>, \<open>None\<close> where it raises (a day
  that does not parse, an overflow).
\<close>

record pandas =
  str_of_num :: "real \<Rightarrow> string"
  str_of_stamp :: "int \<Rightarrow> string"
  to_datetime :: "string list \<Rightarrow> string \<Rightarrow> int option"
  to_numeric :: "cell \<Rightarrow> real option"
  add_seconds :: "string \<Rightarrow> real \<Rightarrow> int option"

subsection \<open>Strings\<close>

text \<open>
  \<open>str.strip\<close>, \<open>len(s.split())\<close>, \<open>str.lower\<close> and \<open>str.capitalize\<close> on ASCII: the white space
  is the six ASCII white-space characters, and only the letters A to Z have another case
  (the Chinese labels have no case).
\<close>

definition is_space :: "char \<Rightarrow> bool" where
  "is_space c \<longleftrightarrow> c \<in> set [CHR '' '', CHR 0x09, CHR 0x0A, CHR 0x0B, CHR 0x0C, CHR 0x0D]"

definition strip :: "string \<Rightarrow> string" where
  "strip s = rev (dropWhile is_space (rev (dropWhile is_space s)))"

text \<open>The number of white-space separated words; the flag says that a word is being read.\<close>

fun split_len :: "bool \<Rightarrow> string \<Rightarrow> nat" where
  "split_len inside [] = 0"
| "split_len inside (c # cs) =
     (if is_space c then split_len False cs
      else (if inside then 0 else 1) + split_len True cs)"

definition lower_char :: "char \<Rightarrow> char" where
  "lower_char c =
     (case map_of (zip ''ABCDEFGHIJKLMNOPQRSTUVWXYZ'' ''abcdefghijklmnopqrstuvwxyz'') c of
        Some l \<Rightarrow> l | None \<Rightarrow> c)"

definition upper_char :: "char \<Rightarrow> char" where
  "upper_char c =
     (case map_of (zip ''abcdefghijklmnopqrstuvwxyz'' ''ABCDEFGHIJKLMNOPQRSTUVWXYZ'') c of
        Some u \<Rightarrow> u | None \<Rightarrow> c)"

definition lower :: "string \<Rightarrow> string" where
  "lower s = map lower_char s"

definition capitalize :: "string \<Rightarrow> string" where
  "capitalize s = (case s of [] \<Rightarrow> [] | c # cs \<Rightarrow> upper_char c # lower cs)"

subsection \<open>The labels the function knows\<close>

definition zh_time :: string where
  "zh_time = [CHR 0xE6, CHR 0x97, CHR 0xB6, CHR 0xE9, CHR 0x97, CHR 0xB4]"

definition zh_open :: string where
  "zh_open = [CHR 0xE5, CHR 0xBC, CHR 0x80, CHR 0xE7, CHR 0x9B, CHR 0x98]"

definition zh_high :: string where
  "zh_high = [CHR 0xE6, CHR 0x9C, CHR 0x80, CHR 0xE9, CHR 0xAB, CHR 0x98]"

definition zh_low :: string where
  "zh_low = [CHR 0xE6, CHR 0x9C, CHR 0x80, CHR 0xE4, CHR 0xBD, CHR 0x8E]"

definition zh_close :: string where
  "zh_close = [CHR 0xE6, CHR 0x94, CHR 0xB6, CHR 0xE7, CHR 0x9B, CHR 0x98]"

definition zh_volume :: string where
  "zh_volume = [CHR 0xE6, CHR 0x88, CHR 0x90, CHR 0xE4, CHR 0xBA, CHR 0xA4, CHR 0xE9, CHR 0x87, CHR 0x8F]"

definition candidates :: "string list" where
  "candidates = [''datetime'', ''time'', zh_time, ''date'']"

definition ohlcv_names :: "string list" where
  "ohlcv_names = [''open'', ''high'', ''low'', ''close'', ''volume'']"

definition price_names :: "string list" where
  "price_names = [''open'', ''high'', ''low'', ''close'']"

definition zh_names :: "(string \<times> string) list" where
  "zh_names = [(zh_open, ''open''), (zh_high, ''high''), (zh_low, ''low''),
               (zh_close, ''close''), (zh_volume, ''volume'')]"

subsection \<open>Table operations\<close>

fun index_of :: "'a list \<Rightarrow> 'a \<Rightarrow> nat" where
  "index_of [] x = 0"
| "index_of (y # ys) x = (if x = y then 0 else Suc (index_of ys x))"

text \<open>\<open>df.empty\<close>: no column or no row.\<close>

definition is_empty :: "frame \<Rightarrow> bool" where
  "is_empty df \<longleftrightarrow> columns df = [] \<or> row_list df = []"

text \<open>\<open>df[name]\<close> for a label that occurs once, and \<open>df[name] = values\<close>.\<close>

definition get_col :: "frame \<Rightarrow> string \<Rightarrow> cell list" where
  "get_col df name = map (\<lambda>r. snd r ! index_of (columns df) name) (row_list df)"

definition set_col :: "frame \<Rightarrow> string \<Rightarrow> cell list \<Rightarrow> frame" where
  "set_col df name vals =
     (if name \<in> set (columns df)
      then df\<lparr>row_list :=
                map (\<lambda>(r, v). (fst r, (snd r)[index_of (columns df) name := v]))
                    (zip (row_list df) vals)\<rparr>
      else df\<lparr>columns := columns df @ [name],
              row_list := map (\<lambda>(r, v). (fst r, snd r @ [v])) (zip (row_list df) vals)\<rparr>)"

text \<open>
  \<open>df.reset_index()\<close>: the index becomes the first column, under its name, or under
  \<open>index\<close> (\<open>level_0\<close> if \<open>index\<close> is taken) when it has none; \<open>None\<close> when pandas raises because
  that label is taken.
\<close>

definition reset_index :: "frame \<Rightarrow> frame option" where
  "reset_index df =
     (let name = (case index_name df of
                    Some n \<Rightarrow> n
                  | None \<Rightarrow> if ''index'' \<in> set (columns df) then ''level_0'' else ''index'')
      in if name \<in> set (columns df) then None
         else Some \<lparr>index_name = None, columns = name # columns df,
                    row_list = map (\<lambda>(i, r). (Num (real i), fst r # snd r))
                                   (enumerate 0 (row_list df))\<rparr>)"

text \<open>\<open>df.dropna(subset=names)\<close>: the rows with no missing value in the named columns.\<close>

definition dropna_subset :: "frame \<Rightarrow> string list \<Rightarrow> frame" where
  "dropna_subset df names =
     df\<lparr>row_list :=
          filter (\<lambda>r. list_all (\<lambda>n. snd r ! index_of (columns df) n \<noteq> NaN) names)
                 (row_list df)\<rparr>"

text \<open>\<open>df.rename(columns=m)\<close>, \<open>m\<close> a dictionary from old labels to new ones.\<close>

definition rename_cols :: "(string \<times> string) list \<Rightarrow> string list \<Rightarrow> string list" where
  "rename_cols m cols = map (\<lambda>c. case map_of m c of Some n \<Rightarrow> n | None \<Rightarrow> c) cols"

text \<open>\<open>df[keep]\<close>: for each label of \<open>keep\<close> in turn, every column that carries it.\<close>

definition positions :: "string list \<Rightarrow> string list \<Rightarrow> nat list" where
  "positions cols keep = concat (map (\<lambda>k. filter (\<lambda>i. cols ! i = k) [0..<length cols]) keep)"

definition select_cols :: "frame \<Rightarrow> string list \<Rightarrow> frame" where
  "select_cols df keep =
     df\<lparr>columns := map (\<lambda>i. columns df ! i) (positions (columns df) keep),
        row_list := map (\<lambda>r. (fst r, map (\<lambda>i. snd r ! i) (positions (columns df) keep)))
                        (row_list df)\<rparr>"

text \<open>\<open>df.set_index(name)\<close> and \<open>df.sort_index()\<close> on an index of timestamps.\<close>

definition set_index :: "frame \<Rightarrow> string \<Rightarrow> frame" where
  "set_index df name =
     (let k = index_of (columns df) name
      in \<lparr>index_name = Some name,
          columns = take k (columns df) @ drop (Suc k) (columns df),
          row_list = map (\<lambda>r. (snd r ! k, take k (snd r) @ drop (Suc k) (snd r)))
                         (row_list df)\<rparr>)"

definition stamp_of :: "cell \<Rightarrow> int" where
  "stamp_of c = (case c of Stamp i \<Rightarrow> i | _ \<Rightarrow> 0)"

definition sort_index :: "frame \<Rightarrow> frame" where
  "sort_index df = df\<lparr>row_list := sort_key (\<lambda>r. stamp_of (fst r)) (row_list df)\<rparr>"

subsection \<open>Finding the time column\<close>

text \<open>The loop \<open>for cand in [...]: if ...: datetime_col = ...; break\<close>.\<close>

fun first_candidate :: "string list \<Rightarrow> (string \<Rightarrow> string option) \<Rightarrow> string option" where
  "first_candidate [] look = None"
| "first_candidate (cand # cands) look =
     (case look cand of Some c \<Rightarrow> Some c | None \<Rightarrow> first_candidate cands look)"

text \<open>
  \<open>{c.lower(): c for c in df.columns}\<close> at a key: the last column with that lower-case
  form. After \<open>reset_index\<close> the function takes the first such column instead.
\<close>

definition lower_map :: "string list \<Rightarrow> string \<Rightarrow> string option" where
  "lower_map cols k =
     (case filter (\<lambda>c. lower c = k) cols of [] \<Rightarrow> None | c # cs \<Rightarrow> Some (last (c # cs)))"

definition first_lower :: "string list \<Rightarrow> string \<Rightarrow> string option" where
  "first_lower cols k = find (\<lambda>c. lower c = k) cols"

definition detect_datetime_col :: "frame \<Rightarrow> frame \<times> string option" where
  "detect_datetime_col df =
     (case first_candidate candidates (lower_map (columns df)) of
        Some c \<Rightarrow> (df, Some c)
      | None \<Rightarrow>
          (case reset_index df of
             None \<Rightarrow> (df, None)
           | Some df1 \<Rightarrow> (df1, first_candidate candidates (first_lower (columns df1)))))"

subsection \<open>Parsing the time column\<close>

definition cell_str :: "pandas \<Rightarrow> cell \<Rightarrow> string" where
  "cell_str P c = (case c of Str s \<Rightarrow> s | Num x \<Rightarrow> str_of_num P x
                   | Stamp i \<Rightarrow> str_of_stamp P i | NaN \<Rightarrow> ''nan'')"

definition stamp_cell :: "int option \<Rightarrow> cell" where
  "stamp_cell v = (case v of Some i \<Rightarrow> Stamp i | None \<Rightarrow> NaN)"

definition num_cell :: "real option \<Rightarrow> cell" where
  "num_cell v = (case v of Some x \<Rightarrow> Num x | None \<Rightarrow> NaN)"

text \<open>
  The block under \<open>if df['datetime'].isna().mean() > 0.5\<close>. Any exception inside it is
  swallowed, and the table stays as it was.
\<close>

definition numeric_fallback :: "pandas \<Rightarrow> frame \<Rightarrow> string \<Rightarrow> string \<Rightarrow> frame" where
  "numeric_fallback P df datetime_col day_str =
     (let nums = map (to_numeric P) (get_col df datetime_col)
      in if list_ex (\<lambda>n. n \<noteq> None) nums
         then (case those (map (\<lambda>n. case n of
                                       None \<Rightarrow> Some NaN
                                     | Some x \<Rightarrow> map_option Stamp (add_seconds P day_str x))
                                nums) of
                 None \<Rightarrow> df
               | Some vals \<Rightarrow> set_col df ''datetime'' vals)
         else df)"

text \<open>
  The function up to \<open>if df.empty: return None\<close> after the rows without a parsed time are
  dropped. \<open>Inr None\<close> is the return of \<open>None\<close>. \<open>df[datetime_col]\<close> is a table, not a column,
  when the label occurs twice, and \<open>.str\<close> on it raises AttributeError.
\<close>

definition parse_times :: "pandas \<Rightarrow> frame option \<Rightarrow> string \<Rightarrow> py_error + frame option" where
  "parse_times P df_raw day_str =
     (case df_raw of
        None \<Rightarrow> Inr None
      | Some df0 \<Rightarrow>
          if is_empty df0 then Inr None
          else
            (case detect_datetime_col df0 of
               (df1, None) \<Rightarrow> Inr None
             | (df1, Some datetime_col) \<Rightarrow>
                 if count_list (columns df1) datetime_col \<noteq> 1 then Inl AttributeError
                 else
                   (let strs = map (\<lambda>c. strip (cell_str P c)) (get_col df1 datetime_col);
                        df2 = set_col df1 datetime_col (map Str strs);
                        sample = take 5 strs;
                        contains_date =
                          list_ex (\<lambda>s. 1 < split_len False s \<or> CHR ''-'' \<in> set s) sample;
                        texts = (if contains_date then strs
                                 else map (\<lambda>s. day_str @ '' '' @ s) strs);
                        df3 = set_col df2 ''datetime''
                                (map (\<lambda>s. stamp_cell (to_datetime P texts s)) texts);
                        n_nat = length (filter (\<lambda>c. c = NaN) (get_col df3 ''datetime''));
                        df4 = (if length (row_list df3) < 2 * n_nat
                               then numeric_fallback P df3 datetime_col day_str else df3);
                        df5 = dropna_subset df4 [''datetime'']
                    in if is_empty df5 then Inr None else Inr (Some df5))))"

subsection \<open>Mapping the column names\<close>

text \<open>
  \<open>rename_map\<close>: a Chinese label that is present maps to its English name, and a capitalised
  English name that is present maps to the lower-case name when that one is absent.
\<close>

definition rename_map :: "string list \<Rightarrow> (string \<times> string) list" where
  "rename_map cols =
     filter (\<lambda>(zh, en). zh \<in> set cols) zh_names
     @ map (\<lambda>en. (capitalize en, en))
           (filter (\<lambda>en. en \<notin> set cols \<and> capitalize en \<in> set cols) ohlcv_names)"

text \<open>
  The second loop: a name still absent is given to the column that \<open>lowermap\<close>, computed
  once before the loop, has for it.
\<close>

fun lower_fixups :: "(string \<Rightarrow> string option) \<Rightarrow> string list \<Rightarrow> string list \<Rightarrow> string list" where
  "lower_fixups lowermap [] cols = cols"
| "lower_fixups lowermap (want # wants) cols =
     lower_fixups lowermap wants
       (case lowermap want of
          Some c \<Rightarrow> if want \<notin> set cols then rename_cols [(c, want)] cols else cols
        | None \<Rightarrow> cols)"

definition map_column_names :: "string list \<Rightarrow> string list" where
  "map_column_names cols =
     (let cols1 = (if rename_map cols \<noteq> [] then rename_cols (rename_map cols) cols else cols)
      in lower_fixups (lower_map cols1) ohlcv_names cols1)"

subsection \<open>The rest of the function\<close>

text \<open>
  The loop \<open>for c in [...]: if c in df.columns: df[c] = pd.to_numeric(df[c], ...)\<close>. Where the
  label \<open>c\<close> occurs twice, \<open>df[c]\<close> is a table and \<open>pd.to_numeric\<close> raises TypeError.
\<close>

fun coerce_numeric :: "pandas \<Rightarrow> string list \<Rightarrow> frame \<Rightarrow> py_error + frame" where
  "coerce_numeric P [] df = Inr df"
| "coerce_numeric P (c # cs) df =
     (if c \<in> set (columns df)
      then if count_list (columns df) c \<noteq> 1 then Inl TypeError
           else coerce_numeric P cs
                  (set_col df c (map (\<lambda>v. num_cell (to_numeric P v)) (get_col df c)))
      else coerce_numeric P cs df)"

definition finish :: "pandas \<Rightarrow> frame \<Rightarrow> py_error + frame" where
  "finish P df =
     (let df1 = df\<lparr>columns := map_column_names (columns df)\<rparr>;
          keep = ''datetime'' # filter (\<lambda>c. c \<in> set (columns df1)) ohlcv_names;
          df2 = sort_index (set_index (select_cols df1 keep) ''datetime'')
      in case coerce_numeric P ohlcv_names df2 of
           Inl err \<Rightarrow> Inl err
         | Inr df3 \<Rightarrow>
             (let price_cols = filter (\<lambda>c. c \<in> set (columns df3)) price_names
              in Inr (dropna_subset df3 price_cols)))"

definition parse_and_normalize_minute_df ::
    "pandas \<Rightarrow> frame option \<Rightarrow> string \<Rightarrow> py_error + frame option" where
  "parse_and_normalize_minute_df P df_raw day_str =
     (case parse_times P df_raw day_str of
        Inl err \<Rightarrow> Inl err
      | Inr None \<Rightarrow> Inr None
      | Inr (Some df) \<Rightarrow> map_sum id Some (finish P df))"

subsection \<open>A concrete payload\<close>





section \<open>Properties of the market simulator\<close>

lemma py_index_in_range: "i < length xs \<Longrightarrow> py_index xs (int i) = Inr (xs ! i)"
  by (simp add: py_index_def)

lemma py_index_at_length: "py_index xs (int (length xs)) = Inl IndexError"
  by (simp add: py_index_def)

lemma py_index_before_end:
  assumes "xs \<noteq> []"
  shows "py_index xs (int (length xs) - 1) = Inr (last xs)"
proof -
  from assms obtain n where n: "length xs = Suc n" by (cases xs) auto
  then have "int (length xs) - 1 = int n" by simp
  moreover have "last xs = xs ! n" using assms n by (simp add: last_conv_nth)
  ultimately show ?thesis using n by (simp add: py_index_def)
qed

lemma reset_result:
  "reset e s0 = (s, Inr ob) \<Longrightarrow> t s = window e \<and> position s = 0 \<and> \<not> is_done s"
  by (auto simp: reset_def Let_def split: sum.splits)

lemma step_result:
  "step e s a = (s', Inr out) \<Longrightarrow>
     t s' = t s + 1 \<and> position s' \<in> {- 1, 0, 1} \<and> (is_done s' \<longleftrightarrow> T e \<le> t s')"
  by (auto simp: step_def Let_def pos_map_def split: if_splits option.splits sum.splits)

text \<open>
  What every reachable state satisfies: the index never falls below the window, the position
  is one of -1, 0, 1, and the flag \<open>done\<close> is only set at or past the end of the series. So a
  simulator with \<open>t < T\<close> is not done.
\<close>

lemma reachable_invariant:
  "reachable e s \<Longrightarrow>
     window e \<le> t s \<and> position s \<in> {- 1, 0, 1} \<and> (is_done s \<longrightarrow> T e \<le> t s)"
proof (induction rule: reachable.induct)
  case (after_reset s0 s ob)
  then show ?case using reset_result by fastforce
next
  case (after_step s a s' out)
  then show ?case using step_result [OF after_step.hyps(2)] by auto
qed

lemma reachable_state_ready: "reachable env0 state_ready"
proof -
  have "reset env0 state0 = (state_ready, Inr [[1]])"
    by (simp add: reset_def env0_def state0_def state_ready_def py_index_def get_obs_def
        py_slice_def slice_bound_def)
  then show ?thesis by (rule after_reset)
qed

lemma reachable_state_long: "reachable env0 state_long"
proof -
  have "step env0 state_ready 1 =
          (state_long, Inr \<lparr>obs = [[2]], reward = Some (- (1 / 100)), done_out = False,
                            info_pnl = Some 0, info_tc = 1 / 100\<rparr>)"
    by (simp add: step_def env0_def state_ready_def state_long_def pos_map_def py_index_def
        np_divide_def T_def Let_def get_obs_def py_slice_def slice_bound_def)
  with reachable_state_ready show ?thesis by (rule after_step)
qed

text \<open>
  C1. In the Stepping state (a reachable state with \<open>t < T\<close>; reachable states have
  \<open>window \<le> t\<close>) a step with an action whose target position is \<open>target\<close> succeeds, and its
  reward is \<open>p * r - c\<close>, where \<open>p\<close> is the position held on entry,
  \<open>r = (price[t] - last_price) / last_price\<close>, and \<open>c = |target - p| * transaction_cost\<close> if
  \<open>target \<noteq> p\<close> and 0 otherwise; the info carries this pnl \<open>p * r\<close> and this cost \<open>c\<close>. Where
  \<open>last_price\<close> is 0 the quotient, the pnl and the reward are the same non-finite float.
\<close>

theorem step_reward:
  assumes "reachable e s" and "t s < T e" and "pos_map a = Some target"
  shows "\<exists>s' out. step e s a = (s', Inr out) \<and>
           reward out = map_option (\<lambda>r. of_int (position s) * r
                            - (if target \<noteq> position s
                               then of_int \<bar>target - position s\<bar> * transaction_cost e else 0))
                          (np_divide (prices e ! t s - last_price s) (last_price s)) \<and>
           info_pnl out = map_option (\<lambda>r. of_int (position s) * r)
                            (np_divide (prices e ! t s - last_price s) (last_price s)) \<and>
           info_tc out = (if target \<noteq> position s
                          then of_int \<bar>target - position s\<bar> * transaction_cost e else 0)"
proof -
  from assms(1,2) have nd: "\<not> is_done s"
    using reachable_invariant by fastforce
  from assms(2) have ix: "py_index (prices e) (int (t s)) = Inr (prices e ! t s)"
    unfolding T_def by (rule py_index_in_range)
  show ?thesis
    using nd ix assms(3) by (simp add: step_def Let_def option.map_comp comp_def)
qed

theorem step_reward_witness:
  "reachable env0 state_long \<and> t state_long < T env0 \<and> pos_map 2 = Some (- 1) \<and>
   (\<exists>s' out. step env0 state_long 2 = (s', Inr out) \<and>
      reward out = Some (- (2 / 101) - 2 / 100) \<and>
      info_pnl out = Some (- (2 / 101)) \<and> info_tc out = 2 / 100)"
proof -
  have b: "t state_long < T env0" by (simp add: state_long_def env0_def T_def)
  have c: "pos_map 2 = Some (- 1)" by (simp add: pos_map_def)
  show ?thesis
    using step_reward [OF reachable_state_long b c] reachable_state_long b c
    by (simp add: state_long_def env0_def np_divide_def)
qed

text \<open>
  C2. In a state whose flag \<open>done\<close> is set, a step with any action raises the RuntimeError
  that tells the caller to reset, and the state after the call is the state before it.
\<close>

theorem step_when_done:
  "is_done s \<Longrightarrow> step e s a = (s, Inl RuntimeError)"
  by (simp add: step_def)

theorem step_when_done_witness:
  "is_done state_done \<and> step env0 state_done 1 = (state_done, Inl RuntimeError)"
proof -
  have d: "is_done state_done" by (simp add: state_done_def)
  show ?thesis using step_when_done [OF d, of env0 1] d by simp
qed

text \<open>
  C9, as the claim states it, fails on a finished simulator: the check of \<open>done\<close> comes before
  the lookup, so action 3 raises the RuntimeError there, not a KeyError.
\<close>

theorem step_bad_action_counterexample:
  "(3::int) \<notin> {0, 1, 2} \<and> snd (step env0 state_done 3) \<noteq> Inl KeyError"
  by (simp add: step_def state_done_def)

text \<open>
  C9, amended. In a state whose flag \<open>done\<close> is not set, a step with an action outside
  0, 1, 2 raises KeyError, and the state after the call is the state before it.
\<close>

theorem step_bad_action:
  "\<not> is_done s \<Longrightarrow> a \<notin> {0, 1, 2} \<Longrightarrow> step e s a = (s, Inl KeyError)"
  by (simp add: step_def pos_map_def)

theorem step_bad_action_witness:
  "\<not> is_done state_ready \<and> (7::int) \<notin> {0, 1, 2} \<and>
   step env0 state_ready 7 = (state_ready, Inl KeyError)"
proof -
  have d: "\<not> is_done state_ready" by (simp add: state_ready_def)
  have a: "(7::int) \<notin> {0, 1, 2}" by simp
  show ?thesis using step_bad_action [OF d a, of env0] d a by simp
qed

text \<open>
  C10. \<open>reset\<close> never sets the flag \<open>done\<close>. With a non-empty price series of length \<open>T\<close> and
  \<open>window = T\<close>, \<open>reset\<close> succeeds from any earlier state, returns the first \<open>T\<close> rows of the
  features, and leaves \<open>done = False\<close>, \<open>position = 0\<close> and \<open>t = T\<close>; the next step with an
  action in 0, 1, 2 raises IndexError from \<open>prices[t]\<close> and leaves the state as it is, and with
  no action at all does it raise the RuntimeError of a finished simulator.
\<close>

theorem reset_window_T:
  "(is_done (fst (reset e s0)) \<longrightarrow> is_done s0) \<and>
   (prices e \<noteq> [] \<and> window e = T e \<longrightarrow>
      (\<exists>s. reset e s0 = (s, Inr (py_slice (features e) 0 (int (T e)))) \<and>
           \<not> is_done s \<and> position s = 0 \<and> t s = T e \<and>
           (\<forall>a. pos_map a \<noteq> None \<longrightarrow> step e s a = (s, Inl IndexError)) \<and>
           (\<forall>a. snd (step e s a) \<noteq> Inl RuntimeError)))"
proof (intro conjI impI)
  show "is_done s0" if "is_done (fst (reset e s0))"
    using that by (auto simp: reset_def Let_def split: sum.splits)
next
  assume a: "prices e \<noteq> [] \<and> window e = T e"
  let ?s = "s0\<lparr>t := window e, position := 0, last_price := last (prices e), is_done := False\<rparr>"
  have ix: "py_index (prices e) (int (window e) - 1) = Inr (last (prices e))"
    using a by (simp add: T_def py_index_before_end)
  have r: "reset e s0 = (?s, Inr (py_slice (features e) 0 (int (T e))))"
    using a ix by (simp add: reset_def Let_def get_obs_def)
  have st: "step e ?s a = (?s, Inl IndexError)" if "pos_map a \<noteq> None" for a
    using that a py_index_at_length [of "prices e"] by (auto simp: step_def T_def)
  have nr: "snd (step e ?s a) \<noteq> Inl RuntimeError" for a
    using st [of a] by (cases "pos_map a") (simp_all add: step_def)
  show "\<exists>s. reset e s0 = (s, Inr (py_slice (features e) 0 (int (T e)))) \<and>
           \<not> is_done s \<and> position s = 0 \<and> t s = T e \<and>
           (\<forall>a. pos_map a \<noteq> None \<longrightarrow> step e s a = (s, Inl IndexError)) \<and>
           (\<forall>a. snd (step e s a) \<noteq> Inl RuntimeError)"
    using r st nr a by (intro exI [of _ ?s]) simp
qed

theorem reset_window_T_witness:
  "prices env_full \<noteq> [] \<and> window env_full = T env_full \<and>
   reset env_full state_done = (state_full, Inr [[1], [2]]) \<and>
   \<not> is_done state_full \<and> pos_map 1 \<noteq> None \<and>
   step env_full state_full 1 = (state_full, Inl IndexError)"
proof -
  have p: "prices env_full \<noteq> [] \<and> window env_full = T env_full"
    by (simp add: env_full_def T_def)
  have r: "reset env_full state_done = (state_full, Inr [[1], [2]])"
    by (simp add: reset_def env_full_def state_done_def state_full_def py_index_def
        get_obs_def py_slice_def slice_bound_def)
  have a: "pos_map 1 \<noteq> None" by (simp add: pos_map_def)
  from reset_window_T [of env_full state_done] p r
  have "\<forall>a. pos_map a \<noteq> None \<longrightarrow> step env_full state_full a = (state_full, Inl IndexError)"
    by auto
  with a have "step env_full state_full 1 = (state_full, Inl IndexError)" by blast
  with p r a show ?thesis by (simp add: state_full_def)
qed

section \<open>Properties of the calendar\<close>

lemma length_session_minutes: "length (session_minutes d) = 242"
  by (simp add: session_minutes_def date_range_1min_def at_time_def)

lemma trading_minutes_concat:
  "trading_minutes_for_days days = concat (map session_minutes days)"
  by (simp add: trading_minutes_for_days_def)

lemma length_trading_minutes:
  "length (trading_minutes_for_days days) = 242 * length days"
  unfolding trading_minutes_concat by (induction days) (simp_all add: length_session_minutes)

lemma trading_minutes_append:
  "trading_minutes_for_days (xs @ ys) = trading_minutes_for_days xs @ trading_minutes_for_days ys"
  by (simp add: trading_minutes_concat)

lemma minute_of_day:
  fixes d m :: int
  assumes "0 \<le> m" and "m < 1440"
  shows "(d * 1440 + m) div 1440 = d" and "(d * 1440 + m) mod 1440 = m"
  using assms by simp_all

lemma minute_split:
  fixes x :: int
  shows "x = (x div 1440) * 1440 + x mod 1440" and "0 \<le> x mod 1440" and "x mod 1440 < 1440"
  by simp_all

lemma set_session_minutes:
  "set (session_minutes d) = {x. x div 1440 = d \<and> in_session (x mod 1440)}"
proof (rule set_eqI)
  fix x :: int
  have mem: "x \<in> set (session_minutes d) \<longleftrightarrow>
          (d * 1440 + 570 \<le> x \<and> x \<le> d * 1440 + 690) \<or> (d * 1440 + 780 \<le> x \<and> x \<le> d * 1440 + 900)"
    by (auto simp: session_minutes_def date_range_1min_def at_time_def)
  have "x div 1440 = d \<and> in_session (x mod 1440)" if "x \<in> set (session_minutes d)"
  proof -
    define m where "m = x - d * 1440"
    have x: "x = d * 1440 + m" by (simp add: m_def)
    from that mem have m: "(570 \<le> m \<and> m \<le> 690) \<or> (780 \<le> m \<and> m \<le> 900)"
      by (auto simp: m_def)
    then have "0 \<le> m" "m < 1440" by auto
    then have "x div 1440 = d" "x mod 1440 = m"
      unfolding x by (rule minute_of_day)+
    with m show ?thesis by (simp add: in_session_def)
  qed
  moreover have "x \<in> set (session_minutes d)" if "x div 1440 = d \<and> in_session (x mod 1440)"
  proof -
    from that have "x = d * 1440 + x mod 1440" using minute_split(1) [of x] by simp
    moreover from that have "(570 \<le> x mod 1440 \<and> x mod 1440 \<le> 690) \<or> (780 \<le> x mod 1440 \<and> x mod 1440 \<le> 900)"
      by (simp add: in_session_def)
    ultimately show ?thesis unfolding mem by linarith
  qed
  ultimately show "x \<in> set (session_minutes d) \<longleftrightarrow> x \<in> {x. x div 1440 = d \<and> in_session (x mod 1440)}"
    by blast
qed

lemma sorted_session_minutes: "sorted_wrt (<) (session_minutes d)"
proof -
  have "x < y" if "x \<in> set [d * 1440 + 570..d * 1440 + 690]"
    and "y \<in> set [d * 1440 + 780..d * 1440 + 900]" for x y
    using that by simp
  then show ?thesis
    unfolding session_minutes_def date_range_1min_def at_time_def Let_def sorted_wrt_append
    by (simp only: sorted_wrt_upto) simp
qed

lemma set_trading_minutes:
  "set (trading_minutes_for_days days) = {x. x div 1440 \<in> set days \<and> in_session (x mod 1440)}"
  unfolding trading_minutes_concat by (auto simp: set_session_minutes)

lemma div_less_imp_less:
  fixes x y :: int
  assumes "x div 1440 < y div 1440"
  shows "x < y"
proof (rule ccontr)
  assume "\<not> x < y"
  then have "y div 1440 \<le> x div 1440" by (simp add: zdiv_mono1)
  with assms show False by simp
qed

lemma sorted_trading_minutes:
  "sorted_wrt (<) days \<Longrightarrow> sorted_wrt (<) (trading_minutes_for_days days)"
proof (induction days)
  case Nil
  then show ?case by (simp add: trading_minutes_concat)
next
  case (Cons d ds)
  have "x < y" if "x \<in> set (session_minutes d)" and "y \<in> set (trading_minutes_for_days ds)" for x y
  proof -
    from that(1) have "x div 1440 = d" by (simp add: set_session_minutes)
    moreover from that(2) have "y div 1440 \<in> set ds" by (simp add: set_trading_minutes)
    ultimately have "x div 1440 < y div 1440" using Cons.prems by auto
    then show ?thesis by (rule div_less_imp_less)
  qed
  moreover have "sorted_wrt (<) (trading_minutes_for_days ds)"
    using Cons by simp
  ultimately show ?case
    using trading_minutes_append [of "[d]" ds]
    by (simp add: sorted_wrt_append sorted_session_minutes trading_minutes_concat)
qed

lemma skip_weekend_ge: "nxt \<le> skip_weekend nxt"
proof (induction nxt rule: skip_weekend.induct)
  case (1 nxt)
  show ?case
  proof (cases "5 \<le> weekday nxt")
    case True
    with 1 have "nxt + 1 \<le> skip_weekend (nxt + 1)" by simp
    with True show ?thesis by (subst skip_weekend.simps) simp
  next
    case False
    then show ?thesis by (subst skip_weekend.simps) simp
  qed
qed

lemma skip_weekend_weekday: "weekday (skip_weekend nxt) < 5"
proof (induction nxt rule: skip_weekend.induct)
  case (1 nxt)
  show ?case
  proof (cases "5 \<le> weekday nxt")
    case True
    with 1 show ?thesis by (subst skip_weekend.simps) simp
  next
    case False
    then show ?thesis by (subst skip_weekend.simps) simp
  qed
qed

lemma py_index_last: "xs \<noteq> [] \<Longrightarrow> py_index xs (- 1) = Inr (last xs)"
  by (cases xs rule: rev_cases) (simp_all add: py_index_def nth_append)

lemma py_index_empty: "py_index [] i = Inl IndexError"
  by (simp add: py_index_def)

lemma sorted_snoc_next:
  assumes "sorted_wrt (<) days" and "days \<noteq> []"
  shows "sorted_wrt (<) (days @ [skip_weekend (last days + 1)])"
proof -
  have "x \<le> last days" if "x \<in> set days" for x
  proof -
    have "sorted days" using assms(1) by (rule strict_sorted_imp_sorted)
    from that obtain i where "i < length days" "x = days ! i" by (auto simp: in_set_conv_nth)
    then show ?thesis using \<open>sorted days\<close> assms(2)
      by (simp add: last_conv_nth sorted_nth_mono)
  qed
  moreover have "last days + 1 \<le> skip_weekend (last days + 1)" by (rule skip_weekend_ge)
  ultimately show ?thesis using assms(1) by (fastforce simp: sorted_wrt_append)
qed

lemma extend_result:
  "days \<noteq> [] \<Longrightarrow> sorted_wrt (<) days \<Longrightarrow>
     \<exists>more. extend_days_until_length days n = Inr (trading_minutes_for_days (days @ more))
           \<and> n \<le> int (length (trading_minutes_for_days (days @ more)))
           \<and> sorted_wrt (<) (days @ more) \<and> (\<forall>d \<in> set more. weekday d < 5)"
proof (induction days n rule: extend_days_until_length.induct)
  case (1 cur_days required_len)
  show ?case
  proof (cases "required_len \<le> int (length (trading_minutes_for_days cur_days))")
    case True
    then have "extend_days_until_length cur_days required_len = Inr (trading_minutes_for_days (cur_days @ []))"
      by (subst extend_days_until_length.simps) simp
    with True "1.prems" show ?thesis by (intro exI [of _ "[]"]) simp
  next
    case False
    let ?nxt = "skip_weekend (last cur_days + 1)"
    have ix: "py_index cur_days (- 1) = Inr (last cur_days)"
      using "1.prems"(1) by (rule py_index_last)
    have srt: "sorted_wrt (<) (cur_days @ [?nxt])"
      using "1.prems" by (simp add: sorted_snoc_next)
    from "1.IH" [OF refl False ix _ srt]
    obtain more where more:
      "extend_days_until_length (cur_days @ [?nxt]) required_len
         = Inr (trading_minutes_for_days ((cur_days @ [?nxt]) @ more))"
      "required_len \<le> int (length (trading_minutes_for_days ((cur_days @ [?nxt]) @ more)))"
      "sorted_wrt (<) ((cur_days @ [?nxt]) @ more)" "\<forall>d \<in> set more. weekday d < 5"
      by auto
    have "extend_days_until_length cur_days required_len
            = extend_days_until_length (cur_days @ [?nxt]) required_len"
      using False ix by (subst extend_days_until_length.simps) simp
    with more show ?thesis
      by (intro exI [of _ "?nxt # more"]) (simp add: skip_weekend_weekday)
  qed
qed

lemma extend_empty:
  "extend_days_until_length [] n = (if n \<le> 0 then Inr [] else Inl IndexError)"
  by (subst extend_days_until_length.simps)
     (simp add: trading_minutes_for_days_def py_index_empty)

lemma sorted_bdate_range: "sorted_wrt (<) (bdate_range a b)"
  unfolding bdate_range_def by (rule sorted_wrt_filter) (rule sorted_wrt_upto)

lemma set_bdate_range: "set (bdate_range a b) = {d. a \<le> d \<and> d \<le> b \<and> weekday d < 5}"
  by (auto simp: bdate_range_def)



text \<open>
  C5. For a date range with at least one business day, the base output of the calendar
  builder (the minutes of the business days of the range, before any extension) is not empty
  and strictly increasing, and it consists of exactly the whole minutes that fall on a day
  of the range from Monday to Friday and, within the day, in 09:30 to 11:30 or in 13:00 to
  15:00, ends included: every such minute once, and nothing else.
\<close>

theorem base_calendar_sessions:
  assumes "bdate_range start_date end_date \<noteq> []"
  shows "trading_minutes_for_days (bdate_range start_date end_date) \<noteq> [] \<and>
         sorted_wrt (<) (trading_minutes_for_days (bdate_range start_date end_date)) \<and>
         set (trading_minutes_for_days (bdate_range start_date end_date)) =
           {x. start_date \<le> x div 1440 \<and> x div 1440 \<le> end_date \<and>
               weekday (x div 1440) < 5 \<and> in_session (x mod 1440)}"
proof (intro conjI)
  have "length (trading_minutes_for_days (bdate_range start_date end_date)) \<noteq> 0"
    using assms by (simp add: length_trading_minutes)
  then show "trading_minutes_for_days (bdate_range start_date end_date) \<noteq> []" by auto
  show "sorted_wrt (<) (trading_minutes_for_days (bdate_range start_date end_date))"
    by (rule sorted_trading_minutes) (rule sorted_bdate_range)
  show "set (trading_minutes_for_days (bdate_range start_date end_date)) =
           {x. start_date \<le> x div 1440 \<and> x div 1440 \<le> end_date \<and>
               weekday (x div 1440) < 5 \<and> in_session (x mod 1440)}"
    by (auto simp: set_trading_minutes set_bdate_range)
qed

theorem base_calendar_sessions_witness:
  "bdate_range 0 4 \<noteq> [] \<and>
   trading_minutes_for_days (bdate_range 0 4) \<noteq> [] \<and>
   sorted_wrt (<) (trading_minutes_for_days (bdate_range 0 4)) \<and>
   set (trading_minutes_for_days (bdate_range 0 4)) =
     {x. 0 \<le> x div 1440 \<and> x div 1440 \<le> 4 \<and> weekday (x div 1440) < 5 \<and> in_session (x mod 1440)}"
proof -
  have "bdate_range 0 4 = [0, 1, 4]"
    by (simp add: bdate_range_def weekday_def upto.simps)
  then have h: "bdate_range 0 4 \<noteq> []" by simp
  show ?thesis using base_calendar_sessions [OF h] h by simp
qed



text \<open>
  C7, as the claim states it, fails on the weekend 1970-01-03 to 1970-01-04: asked for no
  timestamp, the builder returns the empty calendar and signals nothing; asked for one, it
  returns no calendar at all.
\<close>

theorem empty_range_counterexample:
  "bdate_range 2 3 = [] \<and> build_minutes_sequence 2 3 0 = Inr [] \<and>
   build_minutes_sequence 2 3 1 = Inl IndexError"
  by (simp add: bdate_range_def weekday_def build_minutes_sequence_def upto.simps
      trading_minutes_for_days_def extend_empty py_slice_def)

text \<open>
  C7, amended. If the date range has no business day, the base calendar is empty and the
  builder does not loop: asked for a length of at least 1 it stops with an error and returns
  no calendar (the IndexError of \<open>cur_days[-1]\<close> on the empty list), and asked for a
  length of 0 or less it returns the empty calendar and signals nothing.
\<close>

theorem empty_range_builder:
  assumes "bdate_range start_date end_date = []"
  shows "trading_minutes_for_days (bdate_range start_date end_date) = [] \<and>
         build_minutes_sequence start_date end_date n =
           (if n \<le> 0 then Inr [] else Inl IndexError)"
  using assms
  by (simp add: build_minutes_sequence_def trading_minutes_for_days_def extend_empty py_slice_def)

theorem empty_range_builder_witness:
  "bdate_range 9 10 = [] \<and> trading_minutes_for_days (bdate_range 9 10) = [] \<and>
   build_minutes_sequence 9 10 5 = Inl IndexError"
proof -
  have h: "bdate_range 9 10 = []"
    by (simp add: bdate_range_def weekday_def upto.simps)
  show ?thesis using empty_range_builder [OF h, of 5] h by simp
qed

section \<open>Properties of the timestamp repair\<close>


lemma build_error_is_IndexError:
  assumes "build_minutes_sequence a b n = Inl err"
  shows "err = IndexError"
proof (cases "bdate_range a b = []")
  case True
  with assms show ?thesis
    by (auto simp: build_minutes_sequence_def Let_def extend_empty split: if_splits)
next
  case False
  from extend_result [OF False sorted_bdate_range, of n]
  obtain ts where "extend_days_until_length (bdate_range a b) n = Inr ts" by blast
  with assms show ?thesis
    by (simp add: build_minutes_sequence_def Let_def split: if_splits)
qed

lemma astype_int_None: "astype_int cells = None \<longleftrightarrow> (\<exists>c \<in> set cells. \<forall>k. c \<noteq> Converts k)"
  by (induction cells rule: astype_int.induct) auto

lemma is_int_seq_iff: "is_int_seq cells \<longleftrightarrow> Unconvertible \<notin> set cells"
proof -
  have "(\<exists>c \<in> set (dropna cells). \<forall>k. c \<noteq> Converts k) \<longleftrightarrow> Unconvertible \<in> set cells"
  proof
    assume "\<exists>c \<in> set (dropna cells). \<forall>k. c \<noteq> Converts k"
    then obtain c where c: "c \<in> set cells" "c \<noteq> Missing" "\<forall>k. c \<noteq> Converts k"
      by (auto simp: dropna_def)
    have "c = Unconvertible" using c(2,3) by (cases c) simp_all
    with c(1) show "Unconvertible \<in> set cells" by simp
  next
    assume "Unconvertible \<in> set cells"
    then show "\<exists>c \<in> set (dropna cells). \<forall>k. c \<noteq> Converts k"
      by (auto simp: dropna_def intro!: bexI [of _ Unconvertible])
  qed
  then show ?thesis
    using astype_int_None [of "dropna cells"]
    by (auto simp: is_int_seq_def list_all_iff split: option.splits)
qed



text \<open>
  C4, as the claim states it, fails on the time column 3, 1, 2: it is not monotonic, and the
  repair accepts it and rebinds the rows.
\<close>

theorem validation_counterexample:
  "main (WithTimeColumn table_unordered) 0 0 = Inr [(570, ''a''), (571, ''b''), (572, ''c'')]"
  by (simp add: table_unordered_def main_def is_int_seq_def dropna_def build_minutes_sequence_def
      bdate_range_def weekday_def trading_minutes_for_days_def session_minutes_def
      date_range_1min_def at_time_def py_slice_def slice_bound_def upto.simps)

text \<open>
  C4, amended. The repair stops with the validation error, before it builds or binds any
  timestamp, exactly when some cell of the time column cannot be converted to an integer;
  the order of the integers is not looked at.
\<close>

theorem validation_rejects_unconvertible:
  "main (WithTimeColumn rows) start_date end_date = Inl (SystemExit NotIntegerSequence)
     \<longleftrightarrow> Unconvertible \<in> fst ` set rows"
proof (cases "is_int_seq (map fst rows)")
  case True
  have "main (WithTimeColumn rows) start_date end_date \<noteq> Inl (SystemExit NotIntegerSequence)"
  proof (cases "build_minutes_sequence start_date end_date (int (length rows))")
    case (Inl err)
    then have "err = IndexError" by (rule build_error_is_IndexError)
    with Inl True show ?thesis by (simp add: main_def)
  next
    case (Inr ts)
    with True show ?thesis by (simp add: main_def)
  qed
  with True show ?thesis by (simp add: is_int_seq_iff)
next
  case False
  then show ?thesis by (simp add: main_def is_int_seq_iff)
qed

theorem validation_rejects_unconvertible_witness:
  "Unconvertible \<in> fst ` set table_dates \<and>
   main (WithTimeColumn table_dates) 0 0 = Inl (SystemExit NotIntegerSequence)"
proof -
  have h: "Unconvertible \<in> fst ` set table_dates" by (simp add: table_dates_def)
  show ?thesis using validation_rejects_unconvertible [of table_dates 0 0] h by simp
qed

section \<open>Properties of the feed normalizer\<close>




lemma coerce_numeric_absent:
  "\<forall>c \<in> set cs. c \<notin> set (columns df) \<Longrightarrow> coerce_numeric P cs df = Inr df"
  by (induction cs) simp_all













lemma null_only_from_parse_times:
  "parse_and_normalize_minute_df P df_raw day_str = Inr None
     \<longleftrightarrow> parse_times P df_raw day_str = Inr None"
  by (auto simp: parse_and_normalize_minute_df_def finish_def Let_def
      split: sum.splits option.splits)







end
